theory Spec2Isabelle
  imports Complex_Main
begin

section \<open>JavaScript values\<close>

text \<open>
  A JavaScript number is either \<open>NaN\<close> or a finite value. Finite values are kept as exact
  rationals: the rounding of IEEE doubles and the two infinities are outside the model. The two
  zeros are one value (the code never divides by a zero it could tell apart). Every theorem
  below evaluates the code at numbers on which the arithmetic of doubles is exact: whole numbers
  of a few digits and halves.
\<close>

datatype jsnum = NaN | Num rat

fun js_add :: "jsnum \<Rightarrow> jsnum \<Rightarrow> jsnum" where
  "js_add (Num a) (Num b) = Num (a + b)"
| "js_add _ _ = NaN"

fun js_sub :: "jsnum \<Rightarrow> jsnum \<Rightarrow> jsnum" where
  "js_sub (Num a) (Num b) = Num (a - b)"
| "js_sub _ _ = NaN"

fun js_mul :: "jsnum \<Rightarrow> jsnum \<Rightarrow> jsnum" where
  "js_mul (Num a) (Num b) = Num (a * b)"
| "js_mul _ _ = NaN"

text \<open>Comparisons with \<open>NaN\<close> are false, whichever way round.\<close>

fun js_lt :: "jsnum \<Rightarrow> jsnum \<Rightarrow> bool" where
  "js_lt (Num a) (Num b) = (a < b)"
| "js_lt _ _ = False"

fun js_ge :: "jsnum \<Rightarrow> jsnum \<Rightarrow> bool" where
  "js_ge (Num a) (Num b) = (a \<ge> b)"
| "js_ge _ _ = False"

text \<open>
  The remainder operator \<open>%\<close>: the quotient is truncated towards zero, so the result has the
  sign of the dividend; a zero divisor gives \<open>NaN\<close>.
\<close>

definition trunc :: "rat \<Rightarrow> int" where
  "trunc q = (if 0 \<le> q then \<lfloor>q\<rfloor> else \<lceil>q\<rceil>)"

fun js_rem :: "jsnum \<Rightarrow> jsnum \<Rightarrow> jsnum" where
  "js_rem (Num a) (Num b) = (if b = 0 then NaN else Num (a - b * of_int (trunc (a / b))))"
| "js_rem _ _ = NaN"

text \<open>
  Values as \<open>JSON.parse\<close> and object literals build them. An object is the list of its own
  properties; an array is dense (no holes). Functions, symbols and accessors are not modelled.
\<close>

datatype jsval =
    JUndefined
  | JNull
  | JBool bool
  | JNumber jsnum
  | JString string
  | JArray "jsval list"
  | JObject "(string \<times> jsval) list"

datatype error =
    NotAnObject                   \<comment> \<open>\<open>Config must be an object\<close>\<close>
  | MissingName                   \<comment> \<open>\<open>Config must have a name\<close>\<close>
  | InvalidColorCount             \<comment> \<open>\<open>Config must have a positive integer colors\<close>\<close>
  | MissingTransitions            \<comment> \<open>\<open>Config must have a transitions array\<close>\<close>
  | TransitionCountMismatch jsnum \<comment> \<open>\<open>Expected n transitions (states * (colors + 1))\<close>, with \<open>n\<close>\<close>
  | TransitionNotObject nat       \<comment> \<open>\<open>Transition i must be an object\<close>\<close>
  | NewColorOutOfRange nat        \<comment> \<open>\<open>Transition i: newColor out of range\<close>\<close>
  | InvalidTurn nat               \<comment> \<open>\<open>Transition i: turn must be 0 (left) or 1 (right)\<close>\<close>
  | NextStateOutOfRange nat       \<comment> \<open>\<open>Transition i: nextState out of range\<close>\<close>
  | TypeError                     \<comment> \<open>raised by the runtime: a property of \<open>null\<close> or \<open>undefined\<close> is read\<close>
  | SyntaxError                   \<comment> \<open>raised by \<open>JSON.parse\<close> on malformed text\<close>

fun typeof :: "jsval \<Rightarrow> string" where
  "typeof JUndefined = ''undefined''"
| "typeof JNull = ''object''"
| "typeof (JBool _) = ''boolean''"
| "typeof (JNumber _) = ''number''"
| "typeof (JString _) = ''string''"
| "typeof (JArray _) = ''object''"
| "typeof (JObject _) = ''object''"

text \<open>Truthiness, as \<open>!v\<close> tests it.\<close>

fun truthy :: "jsval \<Rightarrow> bool" where
  "truthy JUndefined = False"
| "truthy JNull = False"
| "truthy (JBool b) = b"
| "truthy (JNumber NaN) = False"
| "truthy (JNumber (Num q)) = (q \<noteq> 0)"
| "truthy (JString s) = (s \<noteq> [])"
| "truthy (JArray _) = True"
| "truthy (JObject _) = True"

text \<open>
  Reading a named property \<open>v.k\<close>. Reading from \<open>null\<close> or \<open>undefined\<close> raises a TypeError; a
  missing property reads as \<open>undefined\<close>. None of the names the validator reads
  (\<open>name\<close>, \<open>states\<close>, \<open>colors\<close>, \<open>transitions\<close>, \<open>newColor\<close>, \<open>turn\<close>, \<open>nextState\<close>) is a property
  of an array or of a primitive.
\<close>

fun getProp :: "jsval \<Rightarrow> string \<Rightarrow> error + jsval" where
  "getProp JUndefined k = Inl TypeError"
| "getProp JNull k = Inl TypeError"
| "getProp (JObject kvs) k = Inr (case map_of kvs k of None \<Rightarrow> JUndefined | Some v \<Rightarrow> v)"
| "getProp _ k = Inr JUndefined"

text \<open>
  \<open>ToNumber\<close>, applied to \<open>obj.states\<close> by \<open>*\<close> and \<open>>=\<close>. Its result on strings, arrays and
  objects is computed by the runtime from their text; that part is the parameter \<open>conv\<close>.
\<close>

fun ToNumber :: "(jsval \<Rightarrow> jsnum) \<Rightarrow> jsval \<Rightarrow> jsnum" where
  "ToNumber conv JUndefined = NaN"
| "ToNumber conv JNull = Num 0"
| "ToNumber conv (JBool b) = (if b then Num 1 else Num 0)"
| "ToNumber conv (JNumber n) = n"
| "ToNumber conv v = conv v"

section \<open>antParser: validateAntConfig\<close>

text \<open>The body of the \<open>forEach\<close> callback: the four checks on transition \<open>t\<close> at index \<open>i\<close>.\<close>

definition check_transition :: "jsnum \<Rightarrow> jsnum \<Rightarrow> nat \<Rightarrow> jsval \<Rightarrow> error + unit" where
  "check_transition colors states i t =
     (if typeof t \<noteq> ''object'' then Inl (TransitionNotObject i)
      else case getProp t ''newColor'' of Inl e \<Rightarrow> Inl e | Inr newColor \<Rightarrow>
        (case newColor of
           JNumber c \<Rightarrow>
             if js_lt c (Num 0) \<or> js_ge c colors then Inl (NewColorOutOfRange i)
             else (case getProp t ''turn'' of Inl e \<Rightarrow> Inl e | Inr turn \<Rightarrow>
               if turn \<noteq> JNumber (Num 0) \<and> turn \<noteq> JNumber (Num 1) then Inl (InvalidTurn i)
               else (case getProp t ''nextState'' of Inl e \<Rightarrow> Inl e | Inr nextState \<Rightarrow>
                 (case nextState of
                    JNumber s \<Rightarrow>
                      if js_lt s (Num 0) \<or> js_ge s states then Inl (NextStateOutOfRange i)
                      else Inr ()
                  | _ \<Rightarrow> Inl (NextStateOutOfRange i))))
         | _ \<Rightarrow> Inl (NewColorOutOfRange i)))"

text \<open>\<open>transitions.forEach\<close>: entries in index order, stopping at the first throw.\<close>

fun forEach_transition :: "jsnum \<Rightarrow> jsnum \<Rightarrow> nat \<Rightarrow> jsval list \<Rightarrow> error + unit" where
  "forEach_transition colors states i [] = Inr ()"
| "forEach_transition colors states i (t # ts) =
     (case check_transition colors states i t of
        Inl e \<Rightarrow> Inl e
      | Inr _ \<Rightarrow> forEach_transition colors states (Suc i) ts)"

definition validateAntConfig :: "(jsval \<Rightarrow> jsnum) \<Rightarrow> jsval \<Rightarrow> error + unit" where
  "validateAntConfig conv obj =
     (if \<not> truthy obj \<or> typeof obj \<noteq> ''object'' then Inl NotAnObject
      else (case getProp obj ''name'' of Inl e \<Rightarrow> Inl e | Inr name \<Rightarrow>
        if \<not> truthy name \<or> typeof name \<noteq> ''string'' then Inl MissingName
        else (case getProp obj ''colors'' of Inl e \<Rightarrow> Inl e | Inr colors \<Rightarrow>
          (case colors of
             JNumber c \<Rightarrow>
               if js_lt c (Num 1) then Inl InvalidColorCount
               else (case getProp obj ''transitions'' of Inl e \<Rightarrow> Inl e | Inr transitions \<Rightarrow>
                 (case transitions of
                    JArray ts \<Rightarrow>
                      (case getProp obj ''states'' of Inl e \<Rightarrow> Inl e | Inr states \<Rightarrow>
                         (let expectedTransitions =
                                js_mul (ToNumber conv states) (js_add c (Num 1))
                          in if Num (of_nat (length ts)) \<noteq> expectedTransitions
                             then Inl (TransitionCountMismatch expectedTransitions)
                             else forEach_transition c (ToNumber conv states) 0 ts))
                  | _ \<Rightarrow> Inl MissingTransitions))
           | _ \<Rightarrow> Inl InvalidColorCount))))"

section \<open>antSim: the engine\<close>

text \<open>
  The engine runs on typed data: a transition and a configuration are the records the validator
  describes, with JavaScript numbers in their numeric fields.
\<close>

record transition =
  newColor :: jsnum
  turn :: jsnum
  nextState :: jsnum

record config =
  name :: string
  states :: jsnum
  colors :: jsnum
  transitions :: "transition list"

text \<open>
  \<open>xs[k]\<close> on an array that is only read: the element when the key \<open>k\<close> is one of its indices,
  \<open>undefined\<close> (here \<open>None\<close>) for every other key, \<open>NaN\<close> and fractions included.
\<close>

definition is_index :: "jsnum \<Rightarrow> nat \<Rightarrow> bool" where
  "is_index k n = (case k of NaN \<Rightarrow> False
                   | Num q \<Rightarrow> 0 \<le> q \<and> q = of_int \<lfloor>q\<rfloor> \<and> nat \<lfloor>q\<rfloor> < n)"

definition index_of :: "jsnum \<Rightarrow> nat" where
  "index_of k = (case k of NaN \<Rightarrow> 0 | Num q \<Rightarrow> nat \<lfloor>q\<rfloor>)"

definition nth_js :: "'a list \<Rightarrow> jsnum \<Rightarrow> 'a option" where
  "nth_js xs k = (if is_index k (length xs) then Some (xs ! index_of k) else None)"

text \<open>
  A grid row is an array that \<open>move\<close> also writes, at whatever key \<open>this.x\<close> is: it is the
  partial map from property keys to cell colours. \<open>None\<close> is a cell that reads as \<open>undefined\<close>.
  The grid is the list of its rows; no row is ever added to it or removed from it in place.
\<close>

type_synonym row = "jsnum \<Rightarrow> jsnum option"

text \<open>\<open>Array(cols).fill(0)\<close>\<close>

definition new_row :: "nat \<Rightarrow> row" where
  "new_row cols = (\<lambda>k. if is_index k cols then Some (Num 0) else None)"

text \<open>\<open>Array.from({ length: rows }, () => Array(cols).fill(0))\<close>\<close>

definition new_grid :: "nat \<Rightarrow> nat \<Rightarrow> row list" where
  "new_grid rows cols = replicate rows (new_row cols)"

record Ant =
  ant_x :: jsnum
  ant_y :: jsnum
  direction :: nat
  state :: jsnum
  ant_config :: config

text \<open>The constructor of \<open>Ant\<close>.\<close>

definition new_Ant :: "jsnum \<Rightarrow> jsnum \<Rightarrow> config \<Rightarrow> Ant" where
  "new_Ant x y cfg = \<lparr>ant_x = x, ant_y = y, direction = 0, state = Num 0, ant_config = cfg\<rparr>"

text \<open>
  The lookup at the head of \<open>move\<close>: the primary index, then the fallback index when the primary
  slot is \<open>undefined\<close>. A cell that reads as \<open>undefined\<close> makes the primary index \<open>NaN\<close>.
\<close>

definition primary_index :: "Ant \<Rightarrow> jsnum option \<Rightarrow> jsnum" where
  "primary_index a color =
     js_add (js_mul (state a) (colors (ant_config a))) (case color of None \<Rightarrow> NaN | Some c \<Rightarrow> c)"

definition fallback_index :: "Ant \<Rightarrow> jsnum" where
  "fallback_index a =
     js_add (js_mul (state a) (colors (ant_config a))) (colors (ant_config a))"

definition lookup :: "Ant \<Rightarrow> jsnum option \<Rightarrow> transition option" where
  "lookup a color =
     (case nth_js (transitions (ant_config a)) (primary_index a color) of
        Some t \<Rightarrow> Some t
      | None \<Rightarrow> nth_js (transitions (ant_config a)) (fallback_index a))"

text \<open>The \<open>switch\<close> at the end of \<open>move\<close>: one cell forward in the facing direction.\<close>

definition advance :: "nat \<Rightarrow> nat \<Rightarrow> Ant \<Rightarrow> Ant" where
  "advance rows cols a =
     (if direction a = 0 then
        a\<lparr>ant_y := js_rem (js_add (js_sub (ant_y a) (Num 1)) (Num (of_nat rows))) (Num (of_nat rows))\<rparr>
      else if direction a = 1 then
        a\<lparr>ant_x := js_rem (js_add (ant_x a) (Num 1)) (Num (of_nat cols))\<rparr>
      else if direction a = 2 then
        a\<lparr>ant_y := js_rem (js_add (ant_y a) (Num 1)) (Num (of_nat rows))\<rparr>
      else if direction a = 3 then
        a\<lparr>ant_x := js_rem (js_add (js_sub (ant_x a) (Num 1)) (Num (of_nat cols))) (Num (of_nat cols))\<rparr>
      else a)"

text \<open>
  \<open>Ant.move\<close>. \<open>grid[this.y]\<close> is \<open>undefined\<close> when \<open>this.y\<close> is not a row index, and reading
  \<open>[this.x]\<close> from it raises a TypeError. The result is the grid and the automaton after the call.
\<close>

definition Ant_move :: "row list \<Rightarrow> nat \<Rightarrow> nat \<Rightarrow> Ant \<Rightarrow> error + (row list \<times> Ant)" where
  "Ant_move grid rows cols a =
     (case nth_js grid (ant_y a) of
        None \<Rightarrow> Inl TypeError
      | Some r \<Rightarrow>
          (case lookup a (r (ant_x a)) of
             None \<Rightarrow> Inr (grid, a)
           | Some t \<Rightarrow>
               Inr (grid[index_of (ant_y a) := r(ant_x a \<mapsto> newColor t)],
                    advance rows cols
                      (a\<lparr>direction := (direction a + (if turn t = Num 0 then 3 else 1)) mod 4,
                         state := nextState t\<rparr>))))"

record AntSim =
  gridSize :: nat
  width :: nat
  height :: nat
  config :: config
  rows :: nat
  cols :: nat
  grid :: "row list"
  ants :: "Ant list"

text \<open>
  Canvas sizes are natural numbers and the cell size is positive (the page builds the engine with
  10), so \<open>Math.floor(height / gridSize)\<close> is the quotient of the naturals.
\<close>

definition setConfig :: "config \<Rightarrow> AntSim \<Rightarrow> AntSim" where
  "setConfig cfg s =
     s\<lparr>config := cfg,
       rows := height s div gridSize s,
       cols := width s div gridSize s,
       grid := new_grid (height s div gridSize s) (width s div gridSize s),
       ants := []\<rparr>"

definition new_AntSim :: "config \<Rightarrow> nat \<Rightarrow> nat \<Rightarrow> nat \<Rightarrow> AntSim" where
  "new_AntSim cfg w h gs =
     (setConfig cfg
        \<lparr>gridSize = gs, width = w, height = h, config = cfg, rows = 0, cols = 0,
         grid = [], ants = []\<rparr>)\<lparr>ants := []\<rparr>"

text \<open>\<open>addAnt(x, y, config = null)\<close>: \<open>None\<close> is the absent (or null) third argument.\<close>

definition addAnt :: "jsnum \<Rightarrow> jsnum \<Rightarrow> config option \<Rightarrow> AntSim \<Rightarrow> AntSim" where
  "addAnt x y cfg s =
     s\<lparr>ants := ants s @ [new_Ant x y (case cfg of None \<Rightarrow> config s | Some c \<Rightarrow> c)]\<rparr>"

text \<open>The loop of \<open>step\<close>: each automaton in list order, on the grid the earlier ones left.\<close>

fun move_all :: "row list \<Rightarrow> nat \<Rightarrow> nat \<Rightarrow> Ant list \<Rightarrow> error + (row list \<times> Ant list)" where
  "move_all g r c [] = Inr (g, [])"
| "move_all g r c (a # as) =
     (case Ant_move g r c a of
        Inl e \<Rightarrow> Inl e
      | Inr (g', a') \<Rightarrow>
          (case move_all g' r c as of
             Inl e \<Rightarrow> Inl e
           | Inr (g'', as') \<Rightarrow> Inr (g'', a' # as')))"

definition step :: "AntSim \<Rightarrow> error + AntSim" where
  "step s =
     (case move_all (grid s) (rows s) (cols s) (ants s) of
        Inl e \<Rightarrow> Inl e
      | Inr (g, as) \<Rightarrow> Inr (s\<lparr>grid := g, ants := as\<rparr>))"

text \<open>
  What the loop of \<open>step\<close> leaves behind, whether it ran to its end or a \<open>move\<close> raised.
  \<open>move\<close> raises on its first line, before it writes anything: the automatons before the one
  that raised have been moved on the grid, that one and the later ones are as they were.
\<close>

fun move_all_leaves :: "row list \<Rightarrow> nat \<Rightarrow> nat \<Rightarrow> Ant list \<Rightarrow> row list \<times> Ant list" where
  "move_all_leaves g r c [] = (g, [])"
| "move_all_leaves g r c (a # as) =
     (case Ant_move g r c a of
        Inl e \<Rightarrow> (g, a # as)
      | Inr (g', a') \<Rightarrow>
          (case move_all_leaves g' r c as of (g'', as') \<Rightarrow> (g'', a' # as')))"

definition step_leaves :: "AntSim \<Rightarrow> AntSim" where
  "step_leaves s =
     (case move_all_leaves (grid s) (rows s) (cols s) (ants s) of
        (g, as) \<Rightarrow> s\<lparr>grid := g, ants := as\<rparr>)"




section \<open>antParser: parse and serialize\<close>



text \<open>
  The typed view of a configuration object: the fields the validator checks and the engine
  reads, when they have the types the engine computes with.
\<close>

definition transition_of :: "jsval \<Rightarrow> transition option" where
  "transition_of t =
     (case t of
        JObject kvs \<Rightarrow>
          (case (map_of kvs ''newColor'', map_of kvs ''turn'', map_of kvs ''nextState'') of
             (Some (JNumber c), Some (JNumber d), Some (JNumber n)) \<Rightarrow>
               Some \<lparr>newColor = c, turn = d, nextState = n\<rparr>
           | _ \<Rightarrow> None)
      | _ \<Rightarrow> None)"

fun transitions_of :: "jsval list \<Rightarrow> transition list option" where
  "transitions_of [] = Some []"
| "transitions_of (t # ts) =
     (case transition_of t of
        None \<Rightarrow> None
      | Some t' \<Rightarrow> (case transitions_of ts of None \<Rightarrow> None | Some ts' \<Rightarrow> Some (t' # ts')))"

definition config_of :: "(jsval \<Rightarrow> jsnum) \<Rightarrow> jsval \<Rightarrow> config option" where
  "config_of conv obj =
     (case obj of
        JObject kvs \<Rightarrow>
          (case (map_of kvs ''name'', map_of kvs ''colors'', map_of kvs ''transitions'') of
             (Some (JString n), Some (JNumber c), Some (JArray ts)) \<Rightarrow>
               (case transitions_of ts of
                  None \<Rightarrow> None
                | Some ts' \<Rightarrow>
                    Some \<lparr>name = n,
                          states = ToNumber conv
                            (case map_of kvs ''states'' of None \<Rightarrow> JUndefined | Some v \<Rightarrow> v),
                          colors = c, transitions = ts'\<rparr>)
           | _ \<Rightarrow> None)
      | _ \<Rightarrow> None)"

text \<open>
  What \<open>JSON.parse(JSON.stringify(v))\<close> evaluates to, for a value \<open>v\<close> of the model that is
  not \<open>undefined\<close> itself: JSON has no \<open>NaN\<close> and no \<open>undefined\<close>, so a \<open>NaN\<close> is written as
  \<open>null\<close>, an \<open>undefined\<close> element of an array is written as \<open>null\<close>, and a property whose
  value is \<open>undefined\<close> is left out. Everything else is read back as it was.
\<close>

fun json_image :: "jsval \<Rightarrow> jsval"
  and json_elements :: "jsval list \<Rightarrow> jsval list"
  and json_properties :: "(string \<times> jsval) list \<Rightarrow> (string \<times> jsval) list" where
  "json_image JUndefined = JNull"
| "json_image JNull = JNull"
| "json_image (JBool b) = JBool b"
| "json_image (JNumber NaN) = JNull"
| "json_image (JNumber (Num q)) = JNumber (Num q)"
| "json_image (JString s) = JString s"
| "json_image (JArray vs) = JArray (json_elements vs)"
| "json_image (JObject kvs) = JObject (json_properties kvs)"
| "json_elements [] = []"
| "json_elements (v # vs) = json_image v # json_elements vs"
| "json_properties [] = []"
| "json_properties ((k, v) # kvs) =
     (if v = JUndefined then json_properties kvs else (k, json_image v) # json_properties kvs)"

section \<open>The rate controller\<close>

text \<open>
  The globals of the sketch that the batching timer reads and writes. \<open>stepsPerSecond\<close> is what
  \<open>sliderToSpeed\<close> returned; both numbers are finite, and sums are kept exactly where the
  page rounds each of them to a double.
\<close>

record session =
  paused :: bool
  stepsPerSecond :: rat
  stepAccumulator :: rat
  sim :: AntSim

definition batchInterval :: rat where
  "batchInterval = 50"

text \<open>\<open>for (let i = 0; i < stepsThisBatch; i++) sim.step()\<close>\<close>

fun run_steps :: "nat \<Rightarrow> AntSim \<Rightarrow> error + AntSim" where
  "run_steps 0 s = Inr s"
| "run_steps (Suc n) s = (case step s of Inl e \<Rightarrow> Inl e | Inr s' \<Rightarrow> run_steps n s')"

text \<open>The engine as the loop leaves it, at its end or at the \<open>step\<close> that raised.\<close>

fun run_steps_leaves :: "nat \<Rightarrow> AntSim \<Rightarrow> AntSim" where
  "run_steps_leaves 0 s = s"
| "run_steps_leaves (Suc n) s =
     (case step s of Inl e \<Rightarrow> step_leaves s | Inr s' \<Rightarrow> run_steps_leaves n s')"

text \<open>
  The callback that \<open>updateSimulationInterval\<close> installs: the error it raised, if any, and the
  globals after it. A raise in \<open>sim.step()\<close> leaves the callback at once, after
  \<open>stepAccumulator += ...\<close> and before \<open>stepAccumulator -= stepsThisBatch\<close>.
\<close>

definition tick :: "session \<Rightarrow> error option \<times> session" where
  "tick st =
     (if \<not> paused st then
        (let acc = stepAccumulator st + stepsPerSecond st * batchInterval / 1000;
             stepsThisBatch = \<lfloor>acc\<rfloor>
         in case run_steps (nat stepsThisBatch) (sim st) of
              Inl e \<Rightarrow>
                (Some e, st\<lparr>stepAccumulator := acc,
                            sim := run_steps_leaves (nat stepsThisBatch) (sim st)\<rparr>)
            | Inr s' \<Rightarrow> (None, st\<lparr>stepAccumulator := acc - of_int stepsThisBatch, sim := s'\<rparr>))
      else (None, st))"

text \<open>The handler of the pause button.\<close>

definition pausePressed :: "session \<Rightarrow> session" where
  "pausePressed st =
     (let wasPaused = paused st; st' = st\<lparr>paused := \<not> paused st\<rparr>
      in if \<not> paused st' \<and> wasPaused then st'\<lparr>stepAccumulator := 0\<rparr> else st')"

text \<open>The handler of the speed slider; \<open>speed\<close> is \<open>sliderToSpeed(speedSlider.value())\<close>.\<close>

definition speedInput :: "rat \<Rightarrow> session \<Rightarrow> session" where
  "speedInput speed st = st\<lparr>stepsPerSecond := speed, stepAccumulator := 0\<rparr>"

section \<open>Presets\<close>

definition classic :: config where
  "classic =
     \<lparr>name = ''Classic Langton's Ant'', states = Num 1, colors = Num 2,
      transitions =
        [\<lparr>newColor = Num 1, turn = Num 1, nextState = Num 0\<rparr>,
         \<lparr>newColor = Num 0, turn = Num 0, nextState = Num 0\<rparr>,
         \<lparr>newColor = Num 0, turn = Num 1, nextState = Num 0\<rparr>]\<rparr>"

section \<open>The validator of the specification\<close>

text \<open>
  The validator as section 4.1 of the specification words it, for comparison with
  \<open>validateAntConfig\<close>: six checks in order, each with its own kind of error, the entries of
  the table taken in index order.
\<close>

definition field :: "jsval \<Rightarrow> string \<Rightarrow> jsval" where
  "field v k = (case v of JObject kvs \<Rightarrow> (case map_of kvs k of None \<Rightarrow> JUndefined | Some w \<Rightarrow> w)
                | _ \<Rightarrow> JUndefined)"

definition is_record :: "jsval \<Rightarrow> bool" where
  "is_record v = (case v of JObject kvs \<Rightarrow> True | JArray vs \<Rightarrow> True | _ \<Rightarrow> False)"

definition is_whole :: "jsnum \<Rightarrow> bool" where
  "is_whole n = (case n of NaN \<Rightarrow> False | Num q \<Rightarrow> q = of_int \<lfloor>q\<rfloor>)"

text \<open>\<open>v\<close> is an integer in \<open>[lo, hi)\<close>.\<close>

definition int_in_range :: "jsval \<Rightarrow> rat \<Rightarrow> jsnum \<Rightarrow> bool" where
  "int_in_range v lo hi =
     (case v of JNumber n \<Rightarrow> is_whole n \<and> js_ge n (Num lo) \<and> js_lt n hi | _ \<Rightarrow> False)"

definition spec_entry_error :: "jsnum \<Rightarrow> jsnum \<Rightarrow> nat \<times> jsval \<Rightarrow> error option" where
  "spec_entry_error colorCount stateCount it =
     (if \<not> int_in_range (field (snd it) ''newColor'') 0 colorCount
        then Some (NewColorOutOfRange (fst it))
      else if field (snd it) ''turn'' \<noteq> JNumber (Num 0) \<and> field (snd it) ''turn'' \<noteq> JNumber (Num 1)
        then Some (InvalidTurn (fst it))
      else if \<not> int_in_range (field (snd it) ''nextState'') 0 stateCount
        then Some (NextStateOutOfRange (fst it))
      else None)"

text \<open>The error of the first element that has one, in list order.\<close>

definition first_failure :: "('a \<Rightarrow> error option) \<Rightarrow> 'a list \<Rightarrow> error + unit" where
  "first_failure f xs =
     (case List.find (\<lambda>x. f x \<noteq> None) xs of
        None \<Rightarrow> Inr ()
      | Some x \<Rightarrow> (case f x of None \<Rightarrow> Inr () | Some e \<Rightarrow> Inl e))"

definition spec_validate :: "(jsval \<Rightarrow> jsnum) \<Rightarrow> jsval \<Rightarrow> error + unit" where
  "spec_validate conv v =
     (if \<not> is_record v then Inl NotAnObject
      else case field v ''name'' of
        JString (c # cs) \<Rightarrow>
          (case field v ''colors'' of
             JNumber colorCount \<Rightarrow>
               if is_whole colorCount \<and> js_ge colorCount (Num 1) then
                 (case field v ''transitions'' of
                    JArray ts \<Rightarrow>
                      (let stateCount = ToNumber conv (field v ''states'');
                           expected = js_mul stateCount (js_add colorCount (Num 1))
                       in if Num (of_nat (length ts)) \<noteq> expected
                          then Inl (TransitionCountMismatch expected)
                          else first_failure (spec_entry_error colorCount stateCount)
                                 (enumerate 0 ts))
                  | _ \<Rightarrow> Inl MissingTransitions)
               else Inl InvalidColorCount
           | _ \<Rightarrow> Inl InvalidColorCount)
      | _ \<Rightarrow> Inl MissingName)"

section \<open>Reading the model\<close>

text \<open>The colour that \<open>grid[y][x]\<close> reads, for the statements below.\<close>

definition cell :: "row list \<Rightarrow> jsnum \<Rightarrow> jsnum \<Rightarrow> jsnum option" where
  "cell g y x = (case nth_js g y of None \<Rightarrow> None | Some r \<Rightarrow> r x)"

section \<open>Example candidates, engines and sessions\<close>

text \<open>A conversion that is never consulted: it sends every string, array and object to \<open>NaN\<close>.\<close>

definition conv_NaN :: "jsval \<Rightarrow> jsnum" where
  "conv_NaN v = NaN"

text \<open>A transition that paints 0, turns left and stays in state 0.\<close>

definition still :: jsval where
  "still = JObject [(''newColor'', JNumber (Num 0)), (''turn'', JNumber (Num 0)),
                    (''nextState'', JNumber (Num 0))]"

text \<open>
  \<open>{"name": "a", "states": 2, "colors": 1.5, "transitions": [five times still]}\<close>
\<close>

definition fractional_colors :: jsval where
  "fractional_colors =
     JObject [(''name'', JString ''a''), (''states'', JNumber (Num 2)),
              (''colors'', JNumber (Num (3 / 2))),
              (''transitions'', JArray [still, still, still, still, still])]"

text \<open>
  \<open>{"name": "a", "states": 1, "colors": 1, "transitions":
      [{"newColor": 0.5, "turn": 0, "nextState": 0}, still]}\<close>
\<close>

definition fractional_newColor :: jsval where
  "fractional_newColor =
     JObject [(''name'', JString ''a''), (''states'', JNumber (Num 1)),
              (''colors'', JNumber (Num 1)),
              (''transitions'', JArray
                 [JObject [(''newColor'', JNumber (Num (1 / 2))), (''turn'', JNumber (Num 0)),
                           (''nextState'', JNumber (Num 0))],
                  still])]"

text \<open>
  \<open>{"name": "a", "states": 2, "colors": 1.5, "transitions":
      [{"newColor": 0, "turn": 0, "nextState": 1}, still, still, still, still]}\<close>:
  the first transition leads to state 1.
\<close>

definition fractional_two_states :: jsval where
  "fractional_two_states =
     JObject [(''name'', JString ''a''), (''states'', JNumber (Num 2)),
              (''colors'', JNumber (Num (3 / 2))),
              (''transitions'', JArray
                 [JObject [(''newColor'', JNumber (Num 0)), (''turn'', JNumber (Num 0)),
                           (''nextState'', JNumber (Num 1))],
                  still, still, still, still])]"

text \<open>The configuration that the engine reads from that object.\<close>

definition two_states_config :: config where
  "two_states_config =
     \<lparr>name = ''a'', states = Num 2, colors = Num (3 / 2),
      transitions =
        [\<lparr>newColor = Num 0, turn = Num 0, nextState = Num 1\<rparr>,
         \<lparr>newColor = Num 0, turn = Num 0, nextState = Num 0\<rparr>,
         \<lparr>newColor = Num 0, turn = Num 0, nextState = Num 0\<rparr>,
         \<lparr>newColor = Num 0, turn = Num 0, nextState = Num 0\<rparr>,
         \<lparr>newColor = Num 0, turn = Num 0, nextState = Num 0\<rparr>]\<rparr>"


text \<open>
  The page on a canvas of 30 by 30 (three rows, three columns) with the custom configuration
  above current: a click at pixel (15, 15) adds an automaton at cell (1, 1), bound to it.
\<close>

definition two_states_sim :: AntSim where
  "two_states_sim =
     addAnt (Num 1) (Num 1) (Some two_states_config) (new_AntSim classic 30 30 10)"




text \<open>
  A canvas of 15 by 15 (one row, one column) after clicks at pixels (12, 12) and (2, 2): an
  automaton at cell (1, 1), which is outside the grid, then one at cell (0, 0).
\<close>

definition outside_then_inside :: AntSim where
  "outside_then_inside =
     addAnt (Num 0) (Num 0) (Some classic)
       (addAnt (Num 1) (Num 1) (Some classic) (new_AntSim classic 15 15 10))"

text \<open>
  A running session at 20 steps per second with nothing pending, on a canvas of 15 by 15 after
  a click at pixel (12, 12).
\<close>

definition outside_session :: session where
  "outside_session =
     \<lparr>paused = False, stepsPerSecond = 20, stepAccumulator = 0,
      sim = addAnt (Num 1) (Num 1) (Some classic) (new_AntSim classic 15 15 10)\<rparr>"

section \<open>Creation of automatons\<close>

text \<open>
  C10. \<open>addAnt\<close> appends exactly one automaton to the list, and that automaton starts in internal
  state 0 facing 0 (up), at the given position, whatever configuration it is bound to (the one
  passed, or the engine's current one when none is passed).
\<close>

theorem addAnt_initial_state_and_facing:
  "butlast (ants (addAnt x y cfg s)) = ants s \<and>
   state (last (ants (addAnt x y cfg s))) = Num 0 \<and>
   direction (last (ants (addAnt x y cfg s))) = 0 \<and>
   ant_x (last (ants (addAnt x y cfg s))) = x \<and>
   ant_y (last (ants (addAnt x y cfg s))) = y \<and>
   ant_config (last (ants (addAnt x y cfg s))) = (case cfg of None \<Rightarrow> config s | Some c \<Rightarrow> c)"
  by (simp add: addAnt_def new_Ant_def)

section \<open>Totality of the engine operations\<close>

text \<open>
  C5. On a 15 by 15 canvas with cells of 10 the grid has one row and one column. A click at
  pixel (12, 12) is inside the canvas and adds an automaton at cell (1, 1), which \<open>addAnt\<close> accepts
  without a bounds check. The next \<open>step\<close> reads \<open>grid[1][1]\<close>; \<open>grid[1]\<close> is \<open>undefined\<close>, so the
  read raises a TypeError: \<open>step\<close> is not total on this reachable state.
\<close>

theorem step_raises_on_row_outside_grid:
  "step (addAnt (Num 1) (Num 1) (Some classic) (new_AntSim classic 15 15 10)) = Inl TypeError"
  by (simp add: step_def addAnt_def new_AntSim_def setConfig_def new_grid_def new_Ant_def
        Ant_move_def nth_js_def is_index_def)

section \<open>What the validator lets through\<close>

text \<open>
  C9. A candidate whose \<open>colors\<close> is 1.5 passes every check: the colour count is only tested to
  be a number that is not below 1, and \<open>2 * (1.5 + 1) = 5\<close> matches the five transitions. The
  validator accepts it; the validator of the specification rejects it with the colour-count
  error.
\<close>

theorem validateAntConfig_accepts_fractional_colors:
  "validateAntConfig conv fractional_colors = Inr () \<and>
   spec_validate conv fractional_colors = Inl InvalidColorCount"
proof -
  have "\<lfloor>3 / 2 :: rat\<rfloor> = 1" by (simp add: floor_eq_iff)
  then have "\<not> is_whole (Num (3 / 2))" by (simp add: is_whole_def)
  then have "spec_validate conv fractional_colors = Inl InvalidColorCount"
    by (simp add: spec_validate_def fractional_colors_def field_def is_record_def)
  moreover have "validateAntConfig conv fractional_colors = Inr ()"
    by (simp add: validateAntConfig_def fractional_colors_def still_def check_transition_def)
  ultimately show ?thesis by simp
qed

theorem validateAntConfig_accepts_fractional_colors_witness:
  "validateAntConfig conv_NaN fractional_colors = Inr () \<and>
   spec_validate conv_NaN fractional_colors = Inl InvalidColorCount"
  using validateAntConfig_accepts_fractional_colors [of conv_NaN] .

text \<open>
  C3. A candidate whose first transition has \<open>newColor\<close> 0.5 passes every check: \<open>newColor\<close> is
  only tested to be a number that is not below 0 and is below \<open>colors\<close>. The validator accepts
  it; the validator of the specification, which asks for an integer in \<open>[0, colorCount)\<close>,
  rejects it with the error of that entry.
\<close>

theorem validateAntConfig_accepts_fractional_newColor:
  "validateAntConfig conv_NaN fractional_newColor = Inr () \<and>
   spec_validate conv_NaN fractional_newColor = Inl (NewColorOutOfRange 0)"
proof -
  have "\<lfloor>1 / 2 :: rat\<rfloor> = 0" by (simp add: floor_eq_iff)
  then have half: "\<not> is_whole (Num (1 / 2))" by (simp add: is_whole_def)
  have "validateAntConfig conv_NaN fractional_newColor = Inr ()"
    by (simp add: validateAntConfig_def fractional_newColor_def still_def check_transition_def)
  moreover have "spec_validate conv_NaN fractional_newColor = Inl (NewColorOutOfRange 0)"
    by (simp add: spec_validate_def fractional_newColor_def still_def field_def is_record_def
          spec_entry_error_def int_in_range_def half first_failure_def)
       (simp add: is_whole_def)
  ultimately show ?thesis by simp
qed

theorem validateAntConfig_accepts_fractional_newColor_witness:
  "validateAntConfig conv_NaN fractional_newColor \<noteq> spec_validate conv_NaN fractional_newColor"
  using validateAntConfig_accepts_fractional_newColor by simp



text \<open>
  C6. The object with \<open>colors\<close> 1.5 and two states passes validation, and the engine reads the
  configuration \<open>two_states_config\<close> from it. An automaton bound to it and placed on a fresh
  grid is, after one step, in state 1 on a cell of colour 0: the state is in \<open>[0, 2)\<close> and the
  colour in \<open>[0, 1.5)\<close>. Its primary index is \<open>1 * 1.5 + 0 = 1.5\<close>, where the table has no
  slot; the fallback index is \<open>1 * 1.5 + 1.5 = 3\<close>, and the transition in that slot is the one
  the next move applies.
\<close>

theorem fallback_reached_on_validated_config:
  "validateAntConfig conv_NaN fractional_two_states = Inr () \<and>
   config_of conv_NaN fractional_two_states = Some two_states_config \<and>
   (case step two_states_sim of
      Inl e \<Rightarrow> False
    | Inr s \<Rightarrow>
       (case ants s of
          [a] \<Rightarrow>
            ant_config a = two_states_config \<and> state a = Num 1 \<and>
            cell (grid s) (ant_y a) (ant_x a) = Some (Num 0) \<and>
            js_ge (state a) (Num 0) \<and> js_lt (state a) (states (ant_config a)) \<and>
            js_ge (Num 0) (Num 0) \<and> js_lt (Num 0) (colors (ant_config a)) \<and>
            primary_index a (Some (Num 0)) = Num (3 / 2) \<and>
            nth_js (transitions (ant_config a)) (primary_index a (Some (Num 0))) = None \<and>
            fallback_index a = Num 3 \<and>
            lookup a (Some (Num 0)) = nth_js (transitions (ant_config a)) (fallback_index a) \<and>
            lookup a (Some (Num 0)) = Some \<lparr>newColor = Num 0, turn = Num 0, nextState = Num 0\<rparr>
        | _ \<Rightarrow> False))"
proof -
  have fl: "\<lfloor>3 / 2 :: rat\<rfloor> = 1" by (simp add: floor_eq_iff)
  have 1: "validateAntConfig conv_NaN fractional_two_states = Inr ()"
    by (simp add: validateAntConfig_def fractional_two_states_def still_def check_transition_def)
  have 2: "config_of conv_NaN fractional_two_states = Some two_states_config"
    by (simp add: config_of_def fractional_two_states_def still_def transition_of_def
          two_states_config_def)
  have 3: "step two_states_sim =
      Inr (two_states_sim
        \<lparr>grid := (new_grid 3 3)[1 := (new_row 3)(Num 1 \<mapsto> Num 0)],
         ants := [\<lparr>ant_x = Num 0, ant_y = Num 1, direction = 3, state = Num 1,
                   ant_config = two_states_config\<rparr>]\<rparr>)"
    by (simp add: step_def two_states_sim_def addAnt_def new_AntSim_def setConfig_def new_grid_def
          new_row_def new_Ant_def Ant_move_def nth_js_def is_index_def index_of_def lookup_def
          primary_index_def fallback_index_def two_states_config_def advance_def trunc_def)
  show ?thesis
    by (simp add: 1 2 3 cell_def nth_js_def is_index_def index_of_def new_grid_def new_row_def
          two_states_config_def primary_index_def fallback_index_def lookup_def fl)
qed

theorem fallback_reached_on_validated_config_witness:
  "validateAntConfig conv_NaN fractional_two_states \<noteq> Inl InvalidColorCount \<and>
   step two_states_sim \<noteq> Inl TypeError"
  using fallback_reached_on_validated_config by (auto split: sum.splits)

section \<open>Automatons outside the grid\<close>

text \<open>
  \<open>step_leaves\<close> is the engine that \<open>step\<close> returns, whenever it returns.
\<close>

lemma move_all_leaves_returned:
  "move_all g r c as = Inr p \<Longrightarrow> move_all_leaves g r c as = p"
  by (induction as arbitrary: g p) (auto split: sum.splits prod.splits)

lemma step_leaves_returned: "step s = Inr s' \<Longrightarrow> step_leaves s = s'"
  by (auto simp add: step_def step_leaves_def split: sum.splits prod.splits
        dest: move_all_leaves_returned)


text \<open>
  C2. On a canvas of 15 by 15 with an automaton at cell (1, 1) and, added after it, one at cell
  (0, 0), \<open>step\<close> raises a TypeError at the first automaton and leaves the engine as it was: the
  second automaton, which stands on the grid, is not moved.
\<close>

theorem step_stops_at_first_raise:
  "step outside_then_inside = Inl TypeError \<and>
   step_leaves outside_then_inside = outside_then_inside"
  by (simp add: step_def step_leaves_def outside_then_inside_def addAnt_def new_AntSim_def
        setConfig_def new_grid_def new_Ant_def Ant_move_def nth_js_def is_index_def)


text \<open>A new rate, and a resume from pause, set the accumulator to zero.\<close>

lemma handlers_reset_accumulator:
  "stepAccumulator (speedInput speed st) = 0"
  "paused st \<Longrightarrow> stepAccumulator (pausePressed st) = 0 \<and> \<not> paused (pausePressed st)"
  by (simp_all add: speedInput_def pausePressed_def)

text \<open>
  C8. A running session at 20 steps per second on a canvas of 15 by 15 with an automaton at
  cell (1, 1). The tick adds \<open>20 * 50 / 1000 = 1\<close> to the accumulator and calls \<open>step\<close> once;
  \<open>step\<close> raises a TypeError, the callback is left, and the accumulator stays at 1. The next
  tick brings it to 2 and raises again: the whole steps are never drained. (These products and
  sums are exact in doubles.)
\<close>

theorem tick_raise_keeps_accumulator:
  "tick outside_session = (Some TypeError, outside_session\<lparr>stepAccumulator := 1\<rparr>) \<and>
   tick (outside_session\<lparr>stepAccumulator := 1\<rparr>) =
     (Some TypeError, outside_session\<lparr>stepAccumulator := 2\<rparr>)"
  by (simp add: tick_def outside_session_def batchInterval_def step_def step_leaves_def
        addAnt_def new_AntSim_def setConfig_def new_grid_def new_Ant_def Ant_move_def nth_js_def
        is_index_def numeral_2_eq_2)

end
